theory Spec2Isabelle
  imports Main "HOL-Library.Sublist" "HOL-Library.Multiset"
begin

section \<open>Data model of \<open>src/hooks/useProducts.ts\<close>\<close>

text \<open>
  \<open>Product\<close> is imported from \<open>../data/products\<close>. The hook reads only the fields
  \<open>id\<close> and \<open>name\<close> (both strings); every other field of a product (price, description,
  images, ...) is passed through untouched and is kept as one opaque component \<open>attrs\<close> of
  a type parameter. The field \<open>id\<close> is called \<open>id_p\<close>, since \<open>id\<close> is the identity
  function of HOL.
\<close>

record 'a Product =
  id_p :: string
  name :: string
  attrs :: 'a

text \<open>
  The payload of the endpoint has the type \<open>Array<Product & { featured?: boolean }>\<close>:
  a product with one more, optional, field.
\<close>

record 'a RemoteProduct = "'a Product" +
  featured :: "bool option"

text \<open>
  The test \<open>p.featured\<close> of line 47 is JavaScript truthiness: a missing field
  (\<open>undefined\<close>) and \<open>false\<close> are falsy.
\<close>

definition truthy :: "bool option \<Rightarrow> bool" where
  "truthy b = (case b of None \<Rightarrow> False | Some v \<Rightarrow> v)"

text \<open>
  A remote record placed into the \<open>Product[]\<close> state is the same object seen at the type
  \<open>Product\<close>.
\<close>

definition asProduct :: "'a RemoteProduct \<Rightarrow> 'a Product" where
  "asProduct r = \<lparr>id_p = id_p r, name = name r, attrs = attrs r\<rparr>"

text \<open>
  What \<open>res.json()\<close> can resolve to, as far as \<open>Array.isArray\<close> tells apart. The
  elements of an array are records of the declared element type.
\<close>

datatype 'a json = NonArray | JArray "'a RemoteProduct list"

text \<open>A JavaScript error value: the handler of \<open>catch\<close> reads \<open>name\<close> and \<open>message\<close>.\<close>

record js_error =
  err_name :: string
  err_message :: string

text \<open>
  The body of a response: \<open>res.json()\<close> resolves with a JSON value or rejects (a
  \<open>SyntaxError\<close> for a body that is not JSON, an \<open>AbortError\<close> when the request is
  aborted while the body is read).
\<close>

datatype 'a body = BodyRejected js_error | Json "'a json"

text \<open>
  What the one call of \<open>fetch\<close> settles to: it rejects (network failure, or abort by
  \<open>controller.abort()\<close>), or resolves with a response carrying \<open>ok\<close>, \<open>status\<close> and a
  body.
\<close>

datatype 'a fetch_outcome =
    Rejected js_error
  | Response bool nat "'a body"

text \<open>The four pieces of state of the hook (lines 16 to 19).\<close>

record 'a hook_state =
  products :: "'a Product list"
  featuredIds :: "string set"
  loading :: bool
  error :: "string option"

text \<open>The value the hook returns (\<open>UseProductsResult\<close>, lines 7 to 13).\<close>

record 'a UseProductsResult =
  res_products :: "'a Product list"
  res_featuredProducts :: "'a Product list"
  res_loading :: bool
  res_error :: "string option"
  res_getProductById :: "string \<Rightarrow> 'a Product option"

section \<open>The hook\<close>

definition DEFAULT_FEATURED_IDS :: "string set" where
  "DEFAULT_FEATURED_IDS = {''u8'', ''l5'', ''d13'', ''d10'', ''d6'', ''d12''}"

text \<open>The initial values of the four \<open>useState\<close> calls; \<open>fallbackProducts\<close> is the static list.\<close>

definition initial_state :: "'a Product list \<Rightarrow> 'a hook_state" where
  "initial_state fallbackProducts =
     \<lparr>products = fallbackProducts, featuredIds = DEFAULT_FEATURED_IDS,
      loading = True, error = None\<rparr>"

text \<open>Decimal digits of a number, for the template string of line 26.\<close>

fun string_of_nat :: "nat \<Rightarrow> string" where
  "string_of_nat n =
     (if n < 10 then [char_of (48 + n)]
      else string_of_nat (n div 10) @ [char_of (48 + n mod 10)])"

text \<open>
  The first \<open>then\<close> (lines 25 to 28): a response that is not \<open>ok\<close> throws, otherwise the
  body is parsed.
\<close>

definition onResponse :: "bool \<Rightarrow> nat \<Rightarrow> 'a body \<Rightarrow> js_error + 'a json" where
  "onResponse ok status b =
     (if \<not> ok then
        Inl \<lparr>err_name = ''Error'',
             err_message = ''Products fetch failed: '' @ string_of_nat status\<rparr>
      else (case b of BodyRejected e \<Rightarrow> Inl e | Json v \<Rightarrow> Inr v))"

text \<open>Lines 33 to 43: the merge by name.\<close>

definition nonSoldNames :: "'a RemoteProduct list \<Rightarrow> string set" where
  "nonSoldNames data = set (map name data)"

definition staticNames :: "'a Product list \<Rightarrow> string set" where
  "staticNames fallbackProducts = set (map name fallbackProducts)"

definition filteredStatic :: "'a Product list \<Rightarrow> 'a RemoteProduct list \<Rightarrow> 'a Product list" where
  "filteredStatic fallbackProducts data =
     filter (\<lambda>p. name p \<in> nonSoldNames data) fallbackProducts"

definition newProducts :: "'a Product list \<Rightarrow> 'a RemoteProduct list \<Rightarrow> 'a RemoteProduct list" where
  "newProducts fallbackProducts data =
     filter (\<lambda>p. name p \<notin> staticNames fallbackProducts) data"

definition merged :: "'a Product list \<Rightarrow> 'a RemoteProduct list \<Rightarrow> 'a Product list" where
  "merged fallbackProducts data =
     filteredStatic fallbackProducts data @ map asProduct (newProducts fallbackProducts data)"

text \<open>Lines 47 and 48: the featured ids derived from the remote flags.\<close>

definition featuredNames :: "'a RemoteProduct list \<Rightarrow> string set" where
  "featuredNames data = set (map name (filter (\<lambda>p. truthy (featured p)) data))"

definition featuredFromAirtable :: "'a Product list \<Rightarrow> 'a RemoteProduct list \<Rightarrow> string set" where
  "featuredFromAirtable fallbackProducts data =
     set (map id_p (filter (\<lambda>p. name p \<in> featuredNames data) (merged fallbackProducts data)))"

text \<open>
  The second \<open>then\<close> (lines 29 to 50). A set has \<open>size > 0\<close> exactly when it is not empty.
\<close>

definition onData :: "'a Product list \<Rightarrow> 'a json \<Rightarrow> 'a hook_state \<Rightarrow> 'a hook_state" where
  "onData fallbackProducts v st =
     (case v of
        NonArray \<Rightarrow> st
      | JArray data \<Rightarrow>
          if length data = 0 then st
          else
            let st1 = st\<lparr>products := merged fallbackProducts data\<rparr>
            in if featuredFromAirtable fallbackProducts data \<noteq> {}
               then st1\<lparr>featuredIds := featuredFromAirtable fallbackProducts data\<rparr>
               else st1)"

text \<open>The handler of \<open>catch\<close> (lines 51 to 56); \<open>console.warn\<close> writes no state.\<close>

definition onError :: "js_error \<Rightarrow> 'a hook_state \<Rightarrow> 'a hook_state" where
  "onError err st =
     (if err_name err \<noteq> ''AbortError'' then st\<lparr>error := Some ''offline''\<rparr> else st)"

text \<open>The handler of \<open>finally\<close> (line 57).\<close>

definition onFinally :: "'a hook_state \<Rightarrow> 'a hook_state" where
  "onFinally st = st\<lparr>loading := False\<rparr>"

text \<open>
  The promise chain of the effect (lines 24 to 57), run on the state at the time the
  request settles: a rejection skips both \<open>then\<close> handlers and reaches \<open>catch\<close>;
  \<open>finally\<close> runs on every path.
\<close>

definition runEffect :: "'a Product list \<Rightarrow> 'a fetch_outcome \<Rightarrow> 'a hook_state \<Rightarrow> 'a hook_state" where
  "runEffect fallbackProducts outcome st =
     (let settled = (case outcome of
                       Rejected e \<Rightarrow> Inl e
                     | Response ok status b \<Rightarrow> onResponse ok status b)
      in onFinally (case settled of
                      Inl err \<Rightarrow> onError err st
                    | Inr v \<Rightarrow> onData fallbackProducts v st))"

text \<open>Line 69: \<open>Array.prototype.find\<close> gives the first match or \<open>undefined\<close>.\<close>

definition getProductById :: "'a Product list \<Rightarrow> string \<Rightarrow> 'a Product option" where
  "getProductById ps i = find (\<lambda>p. id_p p = i) ps"

text \<open>Lines 62 to 70: what a render returns for the current state.\<close>

definition featuredProducts :: "'a hook_state \<Rightarrow> 'a Product list" where
  "featuredProducts st = filter (\<lambda>p. id_p p \<in> featuredIds st) (products st)"

definition useProducts_result :: "'a hook_state \<Rightarrow> 'a UseProductsResult" where
  "useProducts_result st =
     \<lparr>res_products = products st,
      res_featuredProducts = featuredProducts st,
      res_loading = loading st,
      res_error = error st,
      res_getProductById = getProductById (products st)\<rparr>"

section \<open>A small catalog for concrete runs\<close>

text \<open>
  Three static products, two of them carrying default featured ids, and remote records:
  one for the static name \<open>B\<close> with other field values, and two records for a new
  name \<open>D\<close> that differ in id and attributes only.
\<close>

definition exA :: "nat Product" where
  "exA = \<lparr>id_p = ''u8'', name = ''A'', attrs = 1\<rparr>"

definition exB :: "nat Product" where
  "exB = \<lparr>id_p = ''l5'', name = ''B'', attrs = 2\<rparr>"

definition exC :: "nat Product" where
  "exC = \<lparr>id_p = ''c'', name = ''C'', attrs = 3\<rparr>"

definition exStatic :: "nat Product list" where
  "exStatic = [exA, exB, exC]"

definition exRemoteB :: "nat RemoteProduct" where
  "exRemoteB = \<lparr>id_p = ''r1'', name = ''B'', attrs = 20, featured = None\<rparr>"

definition exRemoteD :: "nat RemoteProduct" where
  "exRemoteD = \<lparr>id_p = ''r2'', name = ''D'', attrs = 40, featured = Some True\<rparr>"

definition exRemoteD2 :: "nat RemoteProduct" where
  "exRemoteD2 = \<lparr>id_p = ''r9'', name = ''D'', attrs = 41, featured = Some True\<rparr>"

definition exAbort :: js_error where
  "exAbort = \<lparr>err_name = ''AbortError'', err_message = ''signal is aborted without reason''\<rparr>"

definition exNetwork :: js_error where
  "exNetwork = \<lparr>err_name = ''TypeError'', err_message = ''Failed to fetch''\<rparr>"

lemmas ex_defs = exA_def exB_def exC_def exStatic_def exRemoteB_def exRemoteD_def
  exRemoteD2_def exAbort_def exNetwork_def

section \<open>Lookup\<close>

text \<open>
  C7. For every catalog and every id, \<open>getProductById\<close> returns a product of the
  catalog with that id (the first one) when some record has the id, and the absent
  value \<open>None\<close> when no record has it; it has no other result.
\<close>

theorem getProductById_total:
  "((\<exists>p \<in> set ps. id_p p = i) \<longrightarrow>
      (\<exists>p. getProductById ps i = Some p \<and> p \<in> set ps \<and> id_p p = i
           \<and> (\<exists>k < length ps. ps ! k = p \<and> (\<forall>j < k. id_p (ps ! j) \<noteq> i))))
   \<and> ((\<forall>p \<in> set ps. id_p p \<noteq> i) \<longrightarrow> getProductById ps i = None)"
proof (intro conjI impI)
  assume "\<exists>p \<in> set ps. id_p p = i"
  then obtain p where p: "getProductById ps i = Some p"
    unfolding getProductById_def by (cases "find (\<lambda>p. id_p p = i) ps") (auto simp: find_None_iff)
  then obtain k where "k < length ps" "id_p (ps ! k) = i" "p = ps ! k"
    "\<forall>j < k. id_p (ps ! j) \<noteq> i"
    unfolding getProductById_def find_Some_iff by blast
  with p show "\<exists>p. getProductById ps i = Some p \<and> p \<in> set ps \<and> id_p p = i
           \<and> (\<exists>k < length ps. ps ! k = p \<and> (\<forall>j < k. id_p (ps ! j) \<noteq> i))"
    by auto
next
  assume "\<forall>p \<in> set ps. id_p p \<noteq> i"
  then show "getProductById ps i = None"
    unfolding getProductById_def by (simp add: find_None_iff)
qed

theorem getProductById_total_witness:
  "getProductById exStatic ''l5'' = Some exB \<and> getProductById exStatic ''zz'' = None"
  using getProductById_total [of exStatic "''l5''"] getProductById_total [of exStatic "''zz''"]
  by (simp add: ex_defs getProductById_def)

section \<open>The promise chain, path by path\<close>

lemma runEffect_rejected:
  "runEffect fp (Rejected e) st = onFinally (onError e st)"
  by (simp add: runEffect_def)

lemma runEffect_not_ok:
  "runEffect fp (Response False status b) st = (st\<lparr>error := Some ''offline''\<rparr>)\<lparr>loading := False\<rparr>"
  by (simp add: runEffect_def onResponse_def onError_def onFinally_def)

lemma runEffect_body_rejected:
  "runEffect fp (Response True status (BodyRejected e)) st = onFinally (onError e st)"
  by (simp add: runEffect_def onResponse_def)

lemma runEffect_json:
  "runEffect fp (Response True status (Json v)) st = onFinally (onData fp v st)"
  by (simp add: runEffect_def onResponse_def)

lemma onError_fields [simp]:
  "products (onError e st) = products st"
  "featuredIds (onError e st) = featuredIds st"
  "loading (onError e st) = loading st"
  by (simp_all add: onError_def)

lemma onFinally_fields [simp]:
  "products (onFinally st) = products st"
  "featuredIds (onFinally st) = featuredIds st"
  "error (onFinally st) = error st"
  "loading (onFinally st) = False"
  by (simp_all add: onFinally_def)

lemma onData_unusable [simp]:
  "onData fp NonArray st = st"
  "onData fp (JArray []) st = st"
  by (simp_all add: onData_def)

lemma onData_array:
  "data \<noteq> [] \<Longrightarrow>
   onData fp (JArray data) st =
     (if featuredFromAirtable fp data \<noteq> {}
      then st\<lparr>products := merged fp data, featuredIds := featuredFromAirtable fp data\<rparr>
      else st\<lparr>products := merged fp data\<rparr>)"
  by (simp add: onData_def Let_def)

lemma products_after_merge:
  "data \<noteq> [] \<Longrightarrow>
   products (runEffect fp (Response True status (Json (JArray data))) st) = merged fp data"
  by (simp add: runEffect_json onData_array)

lemma featuredIds_after_merge:
  "data \<noteq> [] \<Longrightarrow>
   featuredIds (runEffect fp (Response True status (Json (JArray data))) st) =
     (if featuredFromAirtable fp data \<noteq> {} then featuredFromAirtable fp data
      else featuredIds st)"
  by (simp add: runEffect_json onData_array)

lemma asProduct_fields [simp]:
  "id_p (asProduct r) = id_p r"
  "name (asProduct r) = name r"
  "attrs (asProduct r) = attrs r"
  by (simp_all add: asProduct_def)

lemma merged_filter:
  "merged fp data =
     filter (\<lambda>p. name p \<in> name ` set data) fp
       @ map asProduct (filter (\<lambda>r. name r \<notin> name ` set fp) data)"
  by (simp add: merged_def filteredStatic_def newProducts_def nonSoldNames_def staticNames_def)

section \<open>Fallback and failure\<close>

text \<open>
  C1. When the request fails (rejection, a response that is not ok, a body that cannot be
  read), is aborted (a rejection named \<open>AbortError\<close> is a rejection), or delivers a value
  that is not an array or is the empty array, the chain leaves the catalog and the
  featured ids as they were; started from the initial state, the catalog is the static
  list itself and the featured ids are the default ids.
\<close>

theorem fallback_invariant:
  assumes "outcome = Rejected e \<or> outcome = Response False status b
           \<or> outcome = Response True status (BodyRejected e)
           \<or> outcome = Response True status (Json NonArray)
           \<or> outcome = Response True status (Json (JArray []))"
  shows "products (runEffect fp outcome st) = products st
         \<and> featuredIds (runEffect fp outcome st) = featuredIds st
         \<and> products (runEffect fp outcome (initial_state fp)) = fp
         \<and> featuredIds (runEffect fp outcome (initial_state fp)) = DEFAULT_FEATURED_IDS"
proof -
  have keep: "products (runEffect fp outcome s) = products s
              \<and> featuredIds (runEffect fp outcome s) = featuredIds s" for s
    using assms
    by (auto simp: runEffect_rejected runEffect_not_ok runEffect_body_rejected runEffect_json)
  show ?thesis
    using keep [of st] keep [of "initial_state fp"] by (simp add: initial_state_def)
qed

theorem fallback_invariant_witness:
  "products (runEffect exStatic (Response True 200 (Json (JArray []))) (initial_state exStatic))
     = exStatic
   \<and> featuredIds (runEffect exStatic (Response True 200 (Json (JArray []))) (initial_state exStatic))
     = DEFAULT_FEATURED_IDS
   \<and> products (runEffect exStatic (Rejected exAbort) (initial_state exStatic)) = exStatic
   \<and> products (runEffect exStatic (Response True 200 (Json NonArray)) (initial_state exStatic))
     = exStatic"
  using fallback_invariant [of "Response True 200 (Json (JArray []))" exAbort 200 "Json NonArray"
      exStatic "initial_state exStatic"]
    fallback_invariant [of "Rejected exAbort" exAbort 0 "Json NonArray" exStatic
      "initial_state exStatic"]
    fallback_invariant [of "Response True 200 (Json NonArray)" exAbort 200 "Json NonArray"
      exStatic "initial_state exStatic"]
  by blast

text \<open>
  C9. When the request rejects with an error that is not an abort, or the response is not
  ok (or its body cannot be read, for a reason other than an abort), the run from the
  initial state ends with the full static catalog, the default featured ids, the error
  \<open>offline\<close> and \<open>loading\<close> false.
\<close>

theorem transport_failure:
  assumes "(outcome = Rejected e \<and> err_name e \<noteq> ''AbortError'')
           \<or> outcome = Response False status b
           \<or> (outcome = Response True status (BodyRejected e) \<and> err_name e \<noteq> ''AbortError'')"
  shows "runEffect fp outcome (initial_state fp) =
           \<lparr>products = fp, featuredIds = DEFAULT_FEATURED_IDS,
            loading = False, error = Some ''offline''\<rparr>
         \<and> loading (initial_state fp)
         \<and> error (runEffect fp outcome (initial_state fp)) \<noteq> None"
  using assms
  by (auto simp: runEffect_rejected runEffect_not_ok runEffect_body_rejected
        onError_def onFinally_def initial_state_def)

theorem transport_failure_witness:
  "runEffect exStatic (Rejected exNetwork) (initial_state exStatic) =
     \<lparr>products = exStatic, featuredIds = DEFAULT_FEATURED_IDS,
      loading = False, error = Some ''offline''\<rparr>
   \<and> runEffect exStatic (Response False 503 (Json (JArray [exRemoteB]))) (initial_state exStatic) =
     \<lparr>products = exStatic, featuredIds = DEFAULT_FEATURED_IDS,
      loading = False, error = Some ''offline''\<rparr>"
  using transport_failure [of "Rejected exNetwork" exNetwork 0 "Json NonArray" exStatic]
    transport_failure [of "Response False 503 (Json (JArray [exRemoteB]))" exNetwork 503
      "Json (JArray [exRemoteB])" exStatic]
  by (simp add: exNetwork_def)

section \<open>The merge by name\<close>

text \<open>
  C2. After an ok response with a non-empty array, the catalog starts with the static
  records whose name occurs among the remote names: that segment is the static list with
  exactly the other records removed (each kept record as often as the static list has it,
  in the static order), and every record after it has a name that no static record has.
\<close>

theorem retention_rule:
  assumes "data \<noteq> []"
  shows "\<exists>kept new.
           products (runEffect fp (Response True status (Json (JArray data))) st) = kept @ new
           \<and> kept = filter (\<lambda>p. name p \<in> name ` set data) fp
           \<and> set kept = {p \<in> set fp. name p \<in> name ` set data}
           \<and> mset kept = filter_mset (\<lambda>p. name p \<in> name ` set data) (mset fp)
           \<and> subseq kept fp
           \<and> (\<forall>q \<in> set new. name q \<notin> name ` set fp)"
proof -
  let ?kept = "filter (\<lambda>p. name p \<in> name ` set data) fp"
  let ?new = "map asProduct (filter (\<lambda>r. name r \<notin> name ` set fp) data)"
  have "products (runEffect fp (Response True status (Json (JArray data))) st) = ?kept @ ?new"
    using assms by (simp add: products_after_merge merged_filter)
  moreover have "set ?kept = {p \<in> set fp. name p \<in> name ` set data}"
    by auto
  moreover have "mset ?kept = filter_mset (\<lambda>p. name p \<in> name ` set data) (mset fp)"
    by simp
  moreover have "subseq ?kept fp"
    by simp
  moreover have "\<forall>q \<in> set ?new. name q \<notin> name ` set fp"
    by auto
  ultimately show ?thesis
    by blast
qed

theorem retention_rule_witness:
  "\<exists>kept new.
     products (runEffect exStatic (Response True 200 (Json (JArray [exRemoteB, exRemoteD])))
                (initial_state exStatic)) = kept @ new
     \<and> kept = [exB]
     \<and> (\<forall>q \<in> set new. name q \<notin> name ` set exStatic)"
proof -
  have "[exRemoteB, exRemoteD] \<noteq> []"
    by simp
  from retention_rule [OF this, of exStatic 200 "initial_state exStatic"]
  obtain kept new where
    a: "products (runEffect exStatic (Response True 200 (Json (JArray [exRemoteB, exRemoteD])))
                   (initial_state exStatic)) = kept @ new"
    and b: "kept = filter (\<lambda>p. name p \<in> name ` set [exRemoteB, exRemoteD]) exStatic"
    and c: "\<forall>q \<in> set new. name q \<notin> name ` set exStatic"
    by blast
  have "kept = [exB]"
    unfolding b by (simp add: ex_defs)
  with a c show ?thesis
    by blast
qed

text \<open>
  C3. After an ok response with a non-empty array, every remote record whose name no
  static record has is in the catalog with its own id, name and attributes, and the
  catalog is the retained static records, in static order, followed by these remote
  records, in remote order.
\<close>

theorem new_product_inclusion:
  assumes "data \<noteq> []"
  shows "(\<forall>r \<in> set data. name r \<notin> name ` set fp \<longrightarrow>
            (\<exists>q \<in> set (products (runEffect fp (Response True status (Json (JArray data))) st)).
               id_p q = id_p r \<and> name q = name r \<and> attrs q = attrs r \<and> q = asProduct r))
         \<and> products (runEffect fp (Response True status (Json (JArray data))) st) =
             filter (\<lambda>p. name p \<in> name ` set data) fp
               @ map asProduct (filter (\<lambda>r. name r \<notin> name ` set fp) data)"
proof -
  have m: "products (runEffect fp (Response True status (Json (JArray data))) st) =
             filter (\<lambda>p. name p \<in> name ` set data) fp
               @ map asProduct (filter (\<lambda>r. name r \<notin> name ` set fp) data)"
    using assms by (simp add: products_after_merge merged_filter)
  have "\<exists>q \<in> set (products (runEffect fp (Response True status (Json (JArray data))) st)).
          id_p q = id_p r \<and> name q = name r \<and> attrs q = attrs r \<and> q = asProduct r"
    if "r \<in> set data" "name r \<notin> name ` set fp" for r
  proof -
    from that have "asProduct r \<in> asProduct ` set (filter (\<lambda>r. name r \<notin> name ` set fp) data)"
      by simp
    then have "asProduct r \<in> set (products (runEffect fp (Response True status (Json (JArray data))) st))"
      unfolding m by simp
    then show ?thesis
      by (intro bexI [of _ "asProduct r"]) simp_all
  qed
  with m show ?thesis
    by blast
qed

theorem new_product_inclusion_witness:
  "products (runEffect exStatic (Response True 200 (Json (JArray [exRemoteB, exRemoteD])))
              (initial_state exStatic))
     = [exB, \<lparr>id_p = ''r2'', name = ''D'', attrs = 40\<rparr>]"
  using new_product_inclusion [of "[exRemoteB, exRemoteD]" exStatic 200 "initial_state exStatic"]
  by (simp add: ex_defs asProduct_def)

text \<open>
  C4. After an ok response with a non-empty array, for a name that a static record and
  a remote record both have, the records of the catalog with that name are the static
  records with that name, whatever the other fields of the remote record are.
\<close>

theorem static_wins_on_conflict:
  assumes "data \<noteq> []"
    and "n \<in> name ` set fp"
    and "n \<in> name ` set data"
  shows "filter (\<lambda>q. name q = n)
           (products (runEffect fp (Response True status (Json (JArray data))) st))
         = filter (\<lambda>p. name p = n) fp
         \<and> filter (\<lambda>p. name p = n) fp \<noteq> []"
proof -
  have "filter (\<lambda>q. name q = n) (filter (\<lambda>p. name p \<in> name ` set data) fp)
        = filter (\<lambda>p. name p = n) fp"
    using assms(3) by (auto simp: filter_eq_iff intro: filter_cong)
  moreover have "filter (\<lambda>q. name q = n)
                   (map asProduct (filter (\<lambda>r. name r \<notin> name ` set fp) data)) = []"
    using assms(2) by (auto simp: filter_empty_conv)
  moreover have "filter (\<lambda>p. name p = n) fp \<noteq> []"
    using assms(2) by (auto simp: filter_empty_conv)
  ultimately show ?thesis
    using assms(1) by (simp add: products_after_merge merged_filter)
qed

theorem static_wins_on_conflict_witness:
  "filter (\<lambda>q. name q = ''B'')
     (products (runEffect exStatic (Response True 200 (Json (JArray [exRemoteB, exRemoteD])))
                 (initial_state exStatic)))
   = [exB]"
  using static_wins_on_conflict [of "[exRemoteB, exRemoteD]" "''B''" exStatic 200
      "initial_state exStatic"]
  by (simp add: ex_defs)

section \<open>The featured ids\<close>

lemma truthy_iff: "truthy b \<longleftrightarrow> b = Some True"
  by (cases b) (simp_all add: truthy_def)

lemma featuredNames_eq:
  "featuredNames data = name ` {r \<in> set data. featured r = Some True}"
  by (auto simp: featuredNames_def truthy_iff)

lemma featuredFromAirtable_eq:
  "featuredFromAirtable fp data =
     id_p ` {q \<in> set (merged fp data). name q \<in> featuredNames data}"
  by (auto simp: featuredFromAirtable_def)

lemma featuredFromAirtable_nonempty:
  "featuredFromAirtable fp data \<noteq> {} \<longleftrightarrow> (\<exists>r \<in> set data. featured r = Some True)"
proof
  assume "featuredFromAirtable fp data \<noteq> {}"
  then have "featuredNames data \<noteq> {}"
    by (auto simp: featuredFromAirtable_eq)
  then show "\<exists>r \<in> set data. featured r = Some True"
    by (auto simp: featuredNames_eq)
next
  assume "\<exists>r \<in> set data. featured r = Some True"
  then obtain r where r: "r \<in> set data" "featured r = Some True"
    by blast
  then have n: "name r \<in> featuredNames data"
    by (auto simp: featuredNames_eq)
  have "\<exists>q \<in> set (merged fp data). name q = name r"
  proof (cases "name r \<in> name ` set fp")
    case True
    then obtain p where "p \<in> set fp" "name p = name r"
      by auto
    with r(1) have "p \<in> set (merged fp data)"
      by (auto simp: merged_filter)
    with \<open>name p = name r\<close> show ?thesis
      by blast
  next
    case False
    with r(1) have "asProduct r \<in> set (merged fp data)"
      by (auto simp: merged_filter)
    then show ?thesis
      by (intro bexI [of _ "asProduct r"]) simp_all
  qed
  with n show "featuredFromAirtable fp data \<noteq> {}"
    by (auto simp: featuredFromAirtable_eq)
qed

text \<open>
  C5. After an ok response with a non-empty array, run from the initial state: if some
  remote record has \<open>featured: true\<close>, the featured ids are exactly the ids of the records
  of the resulting catalog whose name is the name of a remote record with
  \<open>featured: true\<close>; if no remote record has it, the featured ids are the default ids.
\<close>

theorem featured_precedence:
  assumes "data \<noteq> []"
    and "st' = runEffect fp (Response True status (Json (JArray data))) (initial_state fp)"
  shows "((\<exists>r \<in> set data. featured r = Some True) \<longrightarrow>
            featuredIds st' =
              id_p ` {q \<in> set (products st').
                        name q \<in> name ` {r \<in> set data. featured r = Some True}})
         \<and> ((\<forall>r \<in> set data. featured r \<noteq> Some True) \<longrightarrow>
               featuredIds st' = DEFAULT_FEATURED_IDS)"
proof (intro conjI impI)
  assume "\<exists>r \<in> set data. featured r = Some True"
  then have "featuredFromAirtable fp data \<noteq> {}"
    by (simp add: featuredFromAirtable_nonempty)
  then have "featuredIds st' = featuredFromAirtable fp data"
    using assms by (simp add: featuredIds_after_merge)
  also have "\<dots> = id_p ` {q \<in> set (products st').
                          name q \<in> name ` {r \<in> set data. featured r = Some True}}"
    using assms by (simp add: featuredFromAirtable_eq featuredNames_eq products_after_merge)
  finally show "featuredIds st' =
      id_p ` {q \<in> set (products st'). name q \<in> name ` {r \<in> set data. featured r = Some True}}" .
next
  assume "\<forall>r \<in> set data. featured r \<noteq> Some True"
  then have "featuredFromAirtable fp data = {}"
    using featuredFromAirtable_nonempty [of fp data] by blast
  then show "featuredIds st' = DEFAULT_FEATURED_IDS"
    using assms by (simp add: featuredIds_after_merge initial_state_def)
qed

theorem featured_precedence_witness:
  "featuredIds (runEffect exStatic (Response True 200 (Json (JArray [exRemoteB, exRemoteD])))
                  (initial_state exStatic)) = {''r2''}
   \<and> featuredIds (runEffect exStatic (Response True 200 (Json (JArray [exRemoteB])))
                    (initial_state exStatic)) = DEFAULT_FEATURED_IDS"
proof -
  let ?st = "runEffect exStatic (Response True 200 (Json (JArray [exRemoteB, exRemoteD])))
               (initial_state exStatic)"
  have ne: "[exRemoteB, exRemoteD] \<noteq> []"
    by simp
  have some: "\<exists>r \<in> set [exRemoteB, exRemoteD]. featured r = Some True"
    by (simp add: ex_defs)
  have p: "products ?st = [exB, asProduct exRemoteD]"
    by (simp add: products_after_merge merged_filter ex_defs)
  have ids: "id_p ` {q \<in> set [exB, asProduct exRemoteD].
                      name q \<in> name ` {r \<in> set [exRemoteB, exRemoteD]. featured r = Some True}}
             = {''r2''}"
    unfolding set_filter [symmetric] image_set by (simp add: ex_defs asProduct_def)
  from featured_precedence [OF ne refl, of exStatic 200] some
  have "featuredIds ?st =
          id_p ` {q \<in> set (products ?st).
                    name q \<in> name ` {r \<in> set [exRemoteB, exRemoteD]. featured r = Some True}}"
    by blast
  then have one: "featuredIds ?st = {''r2''}"
    unfolding p ids .
  have none: "\<forall>r \<in> set [exRemoteB]. featured r \<noteq> Some True"
    by (simp add: ex_defs)
  have "[exRemoteB] \<noteq> []"
    by simp
  from featured_precedence [OF this refl, of exStatic 200] none
  have "featuredIds (runEffect exStatic (Response True 200 (Json (JArray [exRemoteB])))
                       (initial_state exStatic)) = DEFAULT_FEATURED_IDS"
    by blast
  with one show ?thesis
    by blast
qed

section \<open>Repeated merges\<close>

lemma featured_names_zip:
  "map name (filter (\<lambda>p. truthy (featured p)) data) =
     map fst (filter (\<lambda>x. truthy (snd x)) (zip (map name data) (map featured data)))"
  by (induction data) simp_all

lemma featuredNames_cong:
  assumes "map name data' = map name data"
    and "map featured data' = map featured data"
  shows "featuredNames data' = featuredNames data"
  unfolding featuredNames_def featured_names_zip using assms by simp

lemma merged_cong:
  assumes "map name data' = map name data"
    and "filter (\<lambda>r. name r \<notin> name ` set fp) data' = filter (\<lambda>r. name r \<notin> name ` set fp) data"
  shows "merged fp data' = merged fp data"
proof -
  have "name ` set data' = name ` set data"
    using assms(1) by (metis set_map)
  with assms(2) show ?thesis
    by (simp add: merged_filter)
qed

lemma onData_twice:
  "onData fp (JArray data) (onData fp (JArray data) st) = onData fp (JArray data) st"
  by (cases "data = []") (simp_all add: onData_array)

text \<open>
  C6, as the code has it. Two non-empty payloads with the same names and the same
  featured flags, position by position, whose records with a name absent from the static
  catalog are the same records, give the same state from the same starting state; and
  running the second after the first changes nothing any more. (The records with a
  static name may differ in every other field.)
\<close>

theorem idempotence_same_new_records:
  assumes "data \<noteq> []"
    and "map name data' = map name data"
    and "map featured data' = map featured data"
    and "filter (\<lambda>r. name r \<notin> name ` set fp) data' = filter (\<lambda>r. name r \<notin> name ` set fp) data"
  shows "runEffect fp (Response True status' (Json (JArray data'))) st
           = runEffect fp (Response True status (Json (JArray data))) st
         \<and> runEffect fp (Response True status' (Json (JArray data')))
             (runEffect fp (Response True status (Json (JArray data))) st)
           = runEffect fp (Response True status (Json (JArray data))) st"
proof -
  have ne: "data' \<noteq> []"
    using assms(1,2) by (metis map_is_Nil_conv)
  have m: "merged fp data' = merged fp data"
    using assms(2,4) by (rule merged_cong)
  have f: "featuredFromAirtable fp data' = featuredFromAirtable fp data"
    using featuredNames_cong [OF assms(2,3)] by (simp add: featuredFromAirtable_def m)
  have d: "onData fp (JArray data') s = onData fp (JArray data) s" for s
    using assms(1) ne by (simp add: onData_array m f)
  have "onData fp (JArray data) (onFinally (onData fp (JArray data) st))
        = onFinally (onData fp (JArray data) st)"
    using assms(1) by (simp add: onData_array onFinally_def)
  then show ?thesis
    by (simp add: runEffect_json d onFinally_def)
qed

theorem idempotence_same_new_records_witness:
  "runEffect exStatic (Response True 200
       (Json (JArray [exRemoteB\<lparr>id_p := ''other'', attrs := 99\<rparr>, exRemoteD])))
     (initial_state exStatic)
   = runEffect exStatic (Response True 200 (Json (JArray [exRemoteB, exRemoteD])))
       (initial_state exStatic)"
  using idempotence_same_new_records [of "[exRemoteB, exRemoteD]"
      "[exRemoteB\<lparr>id_p := ''other'', attrs := 99\<rparr>, exRemoteD]" exStatic 200
      "initial_state exStatic" 200]
  by (simp add: ex_defs)

text \<open>
  The claim C6 as it is written asks for the same names and flags only. Two payloads
  with the one new name \<open>D\<close>, both featured, under different ids give different catalogs
  and different featured ids.
\<close>

theorem idempotence_names_flags_counterexample:
  "map name [exRemoteD2] = map name [exRemoteD]
   \<and> map featured [exRemoteD2] = map featured [exRemoteD]
   \<and> products (runEffect exStatic (Response True 200 (Json (JArray [exRemoteD2])))
                 (initial_state exStatic))
       \<noteq> products (runEffect exStatic (Response True 200 (Json (JArray [exRemoteD])))
                     (initial_state exStatic))
   \<and> featuredIds (runEffect exStatic (Response True 200 (Json (JArray [exRemoteD2])))
                    (initial_state exStatic))
       \<noteq> featuredIds (runEffect exStatic (Response True 200 (Json (JArray [exRemoteD])))
                        (initial_state exStatic))"
  by (simp add: products_after_merge featuredIds_after_merge merged_filter
        featuredFromAirtable_def featuredNames_def truthy_def asProduct_def ex_defs)

section \<open>Teardown\<close>

text \<open>
  Line 59: the cleanup calls \<open>controller.abort()\<close>; the pending \<open>fetch\<close> (or the pending
  read of the body) then rejects with an error named \<open>AbortError\<close>.

  C8 asks that a run aborted before the response has arrived changes no state: catalog,
  featured ids, error and loading flag stay as they were at teardown. The handler of
  \<open>catch\<close> keeps to this (line 52 leaves the error alone for an \<open>AbortError\<close>), the
  handler of \<open>finally\<close> (line 57) does not. For an activation that is aborted while the
  component stays mounted (the effect run again under \<open>StrictMode\<close>), so that the setters
  still act on the live state: from the initial state, where \<open>loading\<close> is true, the
  aborted run leaves catalog, featured ids and error alone and ends with \<open>loading\<close> false.
\<close>

theorem aborted_run_clears_loading:
  "err_name exAbort = ''AbortError''
   \<and> loading (initial_state exStatic)
   \<and> \<not> loading (runEffect exStatic (Rejected exAbort) (initial_state exStatic))
   \<and> products (runEffect exStatic (Rejected exAbort) (initial_state exStatic))
       = products (initial_state exStatic)
   \<and> featuredIds (runEffect exStatic (Rejected exAbort) (initial_state exStatic))
       = featuredIds (initial_state exStatic)
   \<and> error (runEffect exStatic (Rejected exAbort) (initial_state exStatic))
       = error (initial_state exStatic)
   \<and> runEffect exStatic (Rejected exAbort) (initial_state exStatic) \<noteq> initial_state exStatic"
proof -
  have off: "\<not> loading (runEffect exStatic (Rejected exAbort) (initial_state exStatic))"
    by (simp add: runEffect_rejected)
  have on: "loading (initial_state exStatic)"
    by (simp add: initial_state_def)
  have kept: "error (runEffect exStatic (Rejected exAbort) (initial_state exStatic))
                = error (initial_state exStatic)"
    by (simp add: runEffect_rejected onError_def exAbort_def)
  from off on have "runEffect exStatic (Rejected exAbort) (initial_state exStatic)
                      \<noteq> initial_state exStatic"
    by auto
  with off on kept show ?thesis
    by (simp add: runEffect_rejected exAbort_def)
qed

section \<open>The featured products of a render\<close>

text \<open>
  C10. For every state of the hook (so before and after any merge), the featured
  products a render returns are the records of the returned catalog whose id is in the
  featured ids, in catalog order: a subsequence of the catalog, with the same records as
  the catalog restricted to the featured ids. A featured id that no record of the catalog
  has is the id of no featured product.
\<close>

theorem featuredProducts_invariant:
  "res_featuredProducts (useProducts_result st)
     = filter (\<lambda>p. id_p p \<in> featuredIds st) (res_products (useProducts_result st))
   \<and> res_products (useProducts_result st) = products st
   \<and> subseq (res_featuredProducts (useProducts_result st)) (res_products (useProducts_result st))
   \<and> set (res_featuredProducts (useProducts_result st))
       = {p \<in> set (res_products (useProducts_result st)). id_p p \<in> featuredIds st}
   \<and> set (res_featuredProducts (useProducts_result st))
       \<subseteq> set (res_products (useProducts_result st))
   \<and> (\<forall>i \<in> featuredIds st. i \<notin> id_p ` set (products st) \<longrightarrow>
         i \<notin> id_p ` set (res_featuredProducts (useProducts_result st)))"
  by (auto simp: useProducts_result_def featuredProducts_def)

theorem featuredProducts_invariant_witness:
  "res_featuredProducts (useProducts_result
       (runEffect exStatic (Response True 200 (Json (JArray [exRemoteB]))) (initial_state exStatic)))
     = [exB]
   \<and> ''u8'' \<in> featuredIds
       (runEffect exStatic (Response True 200 (Json (JArray [exRemoteB]))) (initial_state exStatic))
   \<and> ''u8'' \<notin> id_p ` set (res_featuredProducts (useProducts_result
       (runEffect exStatic (Response True 200 (Json (JArray [exRemoteB]))) (initial_state exStatic))))"
proof -
  let ?st = "runEffect exStatic (Response True 200 (Json (JArray [exRemoteB])))
               (initial_state exStatic)"
  have p: "products ?st = [exB]"
    by (simp add: products_after_merge merged_filter ex_defs)
  have "featuredFromAirtable exStatic [exRemoteB] = {}"
    by (simp add: featuredFromAirtable_def featuredNames_def truthy_def ex_defs)
  then have f: "featuredIds ?st = DEFAULT_FEATURED_IDS"
    by (simp add: featuredIds_after_merge initial_state_def)
  have u8: "''u8'' \<in> featuredIds ?st"
    unfolding f by (simp add: DEFAULT_FEATURED_IDS_def)
  have "''u8'' \<notin> id_p ` set (products ?st)"
    unfolding p by (simp add: ex_defs)
  with u8 featuredProducts_invariant [of ?st]
  have gone: "''u8'' \<notin> id_p ` set (res_featuredProducts (useProducts_result ?st))"
    by blast
  have "res_featuredProducts (useProducts_result ?st)
          = filter (\<lambda>p. id_p p \<in> DEFAULT_FEATURED_IDS) [exB]"
    using featuredProducts_invariant [of ?st] unfolding f p by simp
  then have "res_featuredProducts (useProducts_result ?st) = [exB]"
    by (simp add: DEFAULT_FEATURED_IDS_def ex_defs)
  with u8 gone show ?thesis
    by blast
qed

end
